theory Spec2Isabelle
  imports Main "HOL-Library.AList"
begin

section \<open>Strings, dictionaries and exceptions\<close>

text \<open>
  The development follows \<^verbatim>\<open>nixos_render_docs/manual.py\<close>. Python strings are
  \<open>string\<close>, a \<^verbatim>\<open>dict[str, str]\<close> is an association list in insertion order, and
  every \<^verbatim>\<open>raise\<close> is a value of \<open>py_exception\<close> returned on the left of a sum.
\<close>

type_synonym attrs = "(string \<times> string) list"

text \<open>
  The dictionary union \<^verbatim>\<open>a | b\<close>: the entries of \<open>b\<close> are stored into \<open>a\<close> one after
  the other; a key already present keeps its position and takes the new value, a new key
  is appended.
\<close>

definition dict_or :: "attrs \<Rightarrow> attrs \<Rightarrow> attrs" where
  "dict_or a b = fold (\<lambda>(k, v). AList.update k v) b a"

text \<open>
  A markdown-it token, with the attributes this module reads: \<^verbatim>\<open>tag\<close>, \<^verbatim>\<open>map\<close>
  (the source line range, \<^verbatim>\<open>Optional[list[int]]\<close> of two entries), \<^verbatim>\<open>info\<close> and
  \<^verbatim>\<open>content\<close>.
\<close>

record token =
  tag :: string
  map_lines :: "(int \<times> int) option"
  info :: string
  content :: string

text \<open>
  Exceptions. \<open>RuntimeError msg arg cause\<close> carries its message, the optional second
  argument (the token, where \<^verbatim>\<open>_heading_tag\<close> passes one) and the \<^verbatim>\<open>__cause__\<close> set
  by \<^verbatim>\<open>raise ... from e\<close>. \<open>OSError\<close> stands for the failures of \<^verbatim>\<open>open\<close> and
  \<^verbatim>\<open>read\<close>, \<open>OtherException\<close> for whatever else the tokenizer and the base renderer raise.
\<close>

datatype py_exception =
    RuntimeError string "token option" "py_exception option"
  | AssertionError
  | IndexError
  | OSError string
  | OtherException string

text \<open>Python's \<^verbatim>\<open>str\<close> on an integer, as the f-strings apply it: decimal digits.\<close>

definition digit_char :: "nat \<Rightarrow> char" where
  "digit_char d = char_of (48 + d)"

fun str_nat :: "nat \<Rightarrow> string" where
  "str_nat n = (if n < 10 then [digit_char n] else str_nat (n div 10) @ [digit_char (n mod 10)])"

declare str_nat.simps [simp del]

definition str_int :: "int \<Rightarrow> string" where
  "str_int i = (if i < 0 then ''-'' @ str_nat (nat (- i)) else str_nat (nat i))"

section \<open>The heading classifier\<close>

text \<open>
  The renderer objects. \<open>manual_renderer\<close> is the state \<^verbatim>\<open>ManualDocBookRenderer\<close>
  declares (\<^verbatim>\<open>_title_seen\<close>); \<^verbatim>\<open>ManualFragmentDocBookRenderer\<close> extends it by \<^verbatim>\<open>_tag\<close>.
\<close>

record manual_renderer =
  title_seen :: bool

record fragment_renderer = manual_renderer +
  renderer_tag :: string

definition ManualDocBookRenderer_init :: manual_renderer where
  "ManualDocBookRenderer_init = \<lparr>title_seen = False\<rparr>"

definition ManualFragmentDocBookRenderer_init :: fragment_renderer where
  "ManualFragmentDocBookRenderer_init = \<lparr>title_seen = False, renderer_tag = ''chapter''\<rparr>"

definition title_error_message :: "int \<Rightarrow> int \<Rightarrow> string" where
  "title_error_message m0 m1 =
     ''only one title heading (# [text...]) allowed per manual chapter '' @
     ''but found a second in lines ['' @ str_int m0 @ ''..'' @ str_int m1 @ '']. '' @
     ''please remove all such headings except the first, split your '' @
     ''chapters, or demote the subsequent headings to (##) or lower.''"

definition chapter_namespaces :: attrs where
  "chapter_namespaces =
     [(''xmlns'', ''http://docbook.org/ns/docbook''),
      (''xmlns:xlink'', ''http://www.w3.org/1999/xlink'')]"

definition xinclude_namespace :: attrs where
  "xinclude_namespace = [(''xmlns:xi'', ''http://www.w3.org/2001/XInclude'')]"

text \<open>
  \<^verbatim>\<open>ManualDocBookRenderer._heading_tag\<close>. The parameter \<open>super\<close> is
  \<^verbatim>\<open>DocBookRenderer._heading_tag\<close> (\<^verbatim>\<open>docbook.py\<close>, not among the sources): it gives
  the natural tag and attributes of a heading token. The result is the value returned or
  the exception raised, with the renderer after the call.
\<close>

definition ManualDocBookRenderer_heading_tag ::
  "(token \<Rightarrow> string \<times> attrs) \<Rightarrow> 'a manual_renderer_scheme \<Rightarrow> token
     \<Rightarrow> (py_exception + string \<times> attrs) \<times> 'a manual_renderer_scheme" where
  "ManualDocBookRenderer_heading_tag super self tok =
     (case super tok of (tg, ats) \<Rightarrow>
        if title_seen self then
          (if tag tok = ''h1'' then
             (case map_lines tok of
                None \<Rightarrow> (Inl AssertionError, self)
              | Some (m0, m1) \<Rightarrow>
                  (Inl (RuntimeError (title_error_message m0 m1) (Some tok) None), self))
           else (Inr (tg, ats), self))
        else (Inr (''chapter'', dict_or ats chapter_namespaces), self\<lparr>title_seen := True\<rparr>))"

text \<open>
  \<^verbatim>\<open>ManualFragmentDocBookRenderer._heading_tag\<close>: the inherited classifier first (its
  exception propagates), then the root tag and the XInclude namespace for an \<^verbatim>\<open>h1\<close>.
\<close>

definition ManualFragmentDocBookRenderer_heading_tag ::
  "(token \<Rightarrow> string \<times> attrs) \<Rightarrow> fragment_renderer \<Rightarrow> token
     \<Rightarrow> (py_exception + string \<times> attrs) \<times> fragment_renderer" where
  "ManualFragmentDocBookRenderer_heading_tag super self tok =
     (case ManualDocBookRenderer_heading_tag super self tok of
        (Inl e, self') \<Rightarrow> (Inl e, self')
      | (Inr (tg, ats), self') \<Rightarrow>
          if tag tok = ''h1'' then
            (Inr (renderer_tag self', dict_or ats xinclude_namespace), self')
          else (Inr (tg, ats), self'))"

text \<open>
  Modelled from the spec: the token dispatcher of the base renderer (\<^verbatim>\<open>md.py\<close> and
  \<^verbatim>\<open>docbook.py\<close>, not among the sources) walks the token stream of a chapter in order
  and invokes the handler of each token. \<open>classify_headings\<close> is that walk over the
  heading tokens of a chapter: each is classified by the given \<^verbatim>\<open>_heading_tag\<close>, the
  renderer is threaded through, and the first exception ends the walk.
\<close>

fun classify_headings ::
  "('r \<Rightarrow> token \<Rightarrow> (py_exception + string \<times> attrs) \<times> 'r) \<Rightarrow> 'r \<Rightarrow> token list
     \<Rightarrow> (py_exception + (string \<times> attrs) list) \<times> 'r" where
  "classify_headings ht self [] = (Inr [], self)"
| "classify_headings ht self (t # ts) =
     (case ht self t of
        (Inl e, self') \<Rightarrow> (Inl e, self')
      | (Inr r, self') \<Rightarrow>
          (case classify_headings ht self' ts of
             (Inl e, self'') \<Rightarrow> (Inl e, self'')
           | (Inr rs, self'') \<Rightarrow> (Inr (r # rs), self'')))"

section \<open>The block renderer\<close>

text \<open>
  \<^verbatim>\<open>str.replace(old, new)\<close> for a pattern \<open>old\<close> of one character, the only use
  \<^verbatim>\<open>xml.sax.saxutils\<close> makes of it here.
\<close>

definition replace_char :: "char \<Rightarrow> string \<Rightarrow> string \<Rightarrow> string" where
  "replace_char old new s = concat (map (\<lambda>c. if c = old then new else [c]) s)"

text \<open>
  \<^verbatim>\<open>xml.sax.saxutils.escape(data, entities)\<close>: the ampersand first, then \<^verbatim>\<open>>\<close> and
  \<^verbatim>\<open><\<close>, then the entries of \<open>entities\<close> in their order.
\<close>

definition escape :: "string \<Rightarrow> (char \<times> string) list \<Rightarrow> string" where
  "escape data entities =
     fold (\<lambda>(k, v). replace_char k v) entities
       (replace_char (CHR ''<'') ''&lt;''
         (replace_char (CHR ''>'') ''&gt;''
           (replace_char (CHR ''&'') ''&amp;'' data)))"

text \<open>
  \<^verbatim>\<open>xml.sax.saxutils.quoteattr(data)\<close>: newline, carriage return and tab become
  character references; the value is wrapped in double quotes, or in single quotes when
  it holds a double quote and no single quote; when it holds both, the double quotes
  become \<^verbatim>\<open>&quot;\<close>.
\<close>

definition quoteattr :: "string \<Rightarrow> string" where
  "quoteattr data0 =
     (let data = escape data0
            [(CHR 0x0A, ''&#10;''), (CHR 0x0D, ''&#13;''), (CHR 0x09, ''&#9;'')]
      in if CHR 0x22 \<in> set data then
           (if CHR 0x27 \<in> set data then
              [CHR 0x22] @ replace_char (CHR 0x22) ''&quot;'' data @ [CHR 0x22]
            else [CHR 0x27] @ data @ [CHR 0x27])
         else [CHR 0x22] @ data @ [CHR 0x22])"

text \<open>\<^verbatim>\<open>ManualDocBookRenderer.code_block\<close> and \<^verbatim>\<open>ManualDocBookRenderer.fence\<close>.\<close>

definition code_block :: "token \<Rightarrow> string" where
  "code_block tok =
     ''<programlisting>'' @ [CHR 0x0A] @ escape (content tok) [] @ ''</programlisting>''"

definition fence :: "token \<Rightarrow> string" where
  "fence tok =
     (if info tok = ''{=docbook}'' then content tok
      else
        (let info' = (if info tok \<noteq> [] then '' language='' @ quoteattr (info tok) else [])
         in ''<programlisting'' @ info' @ ''>'' @ [CHR 0x0A] @ escape (content tok) [] @
            ''</programlisting>''))"

text \<open>
  The entity escaping as the specification words it: each of \<^verbatim>\<open><\<close>, \<^verbatim>\<open>>\<close> and
  \<^verbatim>\<open>&\<close> is replaced by its entity, every other character is kept. It is compared with
  \<open>escape\<close> below.
\<close>

definition xml_entity :: "char \<Rightarrow> string" where
  "xml_entity c =
     (if c = CHR ''&'' then ''&amp;''
      else if c = CHR ''<'' then ''&lt;''
      else if c = CHR ''>'' then ''&gt;''
      else [c])"

section \<open>Sections and converters\<close>

text \<open>\<^verbatim>\<open>RenderedSection\<close>: an optional id and the rendered chapters.\<close>

record RenderedSection =
  section_id :: "string option"
  chapters :: "string list"

definition RenderedSection_init :: "string option \<Rightarrow> RenderedSection" where
  "RenderedSection_init i = \<lparr>section_id = i, chapters = []\<rparr>"

text \<open>
  \<^verbatim>\<open>BaseConverter\<close>: the section list and the renderer of its Markdown parser
  (\<^verbatim>\<open>self._md.renderer\<close>).
\<close>

record BaseConverter =
  sections :: "RenderedSection list"
  renderer :: manual_renderer

definition BaseConverter_init :: BaseConverter where
  "BaseConverter_init = \<lparr>sections = [], renderer = ManualDocBookRenderer_init\<rparr>"

text \<open>
  The file system: what \<^verbatim>\<open>open(path, 'r')\<close> followed by \<^verbatim>\<open>f.read()\<close> gives for a
  path. Paths are the strings an f-string prints for them.
\<close>

datatype file_result = OpenError py_exception | ReadError py_exception | Text string

type_synonym file_system = "string \<Rightarrow> file_result"

text \<open>
  \<^verbatim>\<open>Converter._render\<close> (\<^verbatim>\<open>md.py\<close>, not among the sources) is a parameter: from the
  renderer and the Markdown text it gives the rendered string or the exception raised,
  and the renderer after the call.
\<close>

type_synonym 'r md_render = "'r \<Rightarrow> string \<Rightarrow> (py_exception + string) \<times> 'r"

definition chapter_error :: "string \<Rightarrow> py_exception \<Rightarrow> py_exception" where
  "chapter_error chpath e =
     RuntimeError (''failed to render manual chapter '' @ chpath) None (Some e)"

text \<open>
  The loop of \<^verbatim>\<open>BaseConverter.add_section\<close>. Inside the \<^verbatim>\<open>try\<close>: the file is opened,
  \<^verbatim>\<open>_title_seen\<close> is reset, \<^verbatim>\<open>self._sections[-1]\<close> is looked up (an IndexError on an
  empty list), the file is read and rendered, and the result is appended to the chapters
  of the last section. Any exception is raised again as a RuntimeError with the
  exception as its cause, and ends the loop.
\<close>

fun add_chapters ::
  "manual_renderer md_render \<Rightarrow> file_system \<Rightarrow> BaseConverter \<Rightarrow> string list
     \<Rightarrow> (py_exception + unit) \<times> BaseConverter" where
  "add_chapters render fs self [] = (Inr (), self)"
| "add_chapters render fs self (chpath # rest) =
     (case fs chpath of
        OpenError e \<Rightarrow> (Inl (chapter_error chpath e), self)
      | f \<Rightarrow>
          (let self1 = self\<lparr>renderer := (renderer self)\<lparr>title_seen := False\<rparr>\<rparr> in
           case sections self1 of
             [] \<Rightarrow> (Inl (chapter_error chpath IndexError), self1)
           | _ # _ \<Rightarrow>
               (case f of
                  ReadError e \<Rightarrow> (Inl (chapter_error chpath e), self1)
                | Text text \<Rightarrow>
                    (case render (renderer self1) text of
                       (Inl e, r) \<Rightarrow> (Inl (chapter_error chpath e), self1\<lparr>renderer := r\<rparr>)
                     | (Inr out, r) \<Rightarrow>
                         add_chapters render fs
                           (self1\<lparr>renderer := r,
                              sections := butlast (sections self1) @
                                [(last (sections self1))
                                   \<lparr>chapters := chapters (last (sections self1)) @ [out]\<rparr>]\<rparr>)
                           rest))))"

definition add_section ::
  "manual_renderer md_render \<Rightarrow> file_system \<Rightarrow> BaseConverter \<Rightarrow> string option
     \<Rightarrow> string list \<Rightarrow> (py_exception + unit) \<times> BaseConverter" where
  "add_section render fs self i chpaths =
     add_chapters render fs (self\<lparr>sections := sections self @ [RenderedSection_init i]\<rparr>)
       chpaths"

text \<open>\<^verbatim>\<open>"\n".join(result)\<close>.\<close>

fun join :: "string \<Rightarrow> string list \<Rightarrow> string" where
  "join sep [] = []"
| "join sep [x] = x"
| "join sep (x # y # ys) = x @ sep @ join sep (y # ys)"

text \<open>\<^verbatim>\<open>DocBookSectionConverter.finalize\<close>: the loop over the sections, then the join.\<close>

fun finalize_loop :: "string list \<Rightarrow> RenderedSection list \<Rightarrow> string list" where
  "finalize_loop result [] = result"
| "finalize_loop result (s # ss) =
     (let id' = (case section_id s of Some i \<Rightarrow> ''id='' @ quoteattr i | None \<Rightarrow> [])
      in finalize_loop (result @ [''<section '' @ id' @ ''>''] @ chapters s @ [''</section>''])
           ss)"

definition finalize :: "BaseConverter \<Rightarrow> string" where
  "finalize self = join [CHR 0x0A] (finalize_loop [] (sections self))"

text \<open>
  \<^verbatim>\<open>DocBookFragmentConverter.convert\<close>. The converter's state is its renderer, a
  \<^verbatim>\<open>ManualFragmentDocBookRenderer\<close> (what the \<^verbatim>\<open>assert isinstance\<close> checks).
\<close>

definition fragment_error :: "string \<Rightarrow> string \<Rightarrow> py_exception \<Rightarrow> py_exception" where
  "fragment_error tg file e =
     RuntimeError (''failed to render manual '' @ tg @ '' '' @ file) None (Some e)"

definition convert ::
  "fragment_renderer md_render \<Rightarrow> file_system \<Rightarrow> fragment_renderer \<Rightarrow> string \<Rightarrow> string
     \<Rightarrow> (py_exception + string) \<times> fragment_renderer" where
  "convert render fs self file tg =
     (case fs file of
        OpenError e \<Rightarrow> (Inl (fragment_error tg file e), self)
      | ReadError e \<Rightarrow>
          (Inl (fragment_error tg file e), self\<lparr>title_seen := False, renderer_tag := tg\<rparr>)
      | Text text \<Rightarrow>
          (case render (self\<lparr>title_seen := False, renderer_tag := tg\<rparr>) text of
             (Inl e, self') \<Rightarrow> (Inl (fragment_error tg file e), self')
           | (Inr out, self') \<Rightarrow> (Inr out, self')))"

text \<open>
  The chapter renderer as the specification words it (render a path to a string or a
  failure, from a fresh render state): the outcome of one chapter seen alone. The loop of
  \<open>add_section\<close> is compared with it below.
\<close>

definition render_chapter ::
  "manual_renderer md_render \<Rightarrow> file_system \<Rightarrow> string \<Rightarrow> py_exception + string" where
  "render_chapter render fs chpath =
     (case fs chpath of
        OpenError e \<Rightarrow> Inl e
      | ReadError e \<Rightarrow> Inl e
      | Text text \<Rightarrow> fst (render \<lparr>title_seen = False\<rparr> text))"

text \<open>
  The pieces of one section as the specification words them: the opening tag, the
  chapter strings in order, the closing tag. \<open>finalize\<close> is compared with the
  concatenation of these below.
\<close>

definition section_pieces :: "RenderedSection \<Rightarrow> string list" where
  "section_pieces s =
     [case section_id s of
        None \<Rightarrow> ''<section >''
      | Some i \<Rightarrow> ''<section id='' @ quoteattr i @ ''>''] @
     chapters s @ [''</section>'']"

section \<open>Properties of the heading classifier\<close>

lemma map_of_chapter_namespaces:
  "map_of (dict_or ats chapter_namespaces) =
     (map_of ats)(''xmlns'' \<mapsto> ''http://docbook.org/ns/docbook'',
                  ''xmlns:xlink'' \<mapsto> ''http://www.w3.org/1999/xlink'')"
  by (simp add: dict_or_def chapter_namespaces_def update_conv')

lemma map_of_xinclude_namespace:
  "map_of (dict_or ats xinclude_namespace) =
     (map_of ats)(''xmlns:xi'' \<mapsto> ''http://www.w3.org/2001/XInclude'')"
  by (simp add: dict_or_def xinclude_namespace_def update_conv')

lemma update_same_iff: "AList.update k v al = al \<longleftrightarrow> map_of al k = Some v"
  by (induction al) auto

lemma heading_tag_seen_h1:
  assumes "title_seen self" and "tag tok = ''h1''"
  shows "ManualDocBookRenderer_heading_tag super self tok =
     (Inl (case map_lines tok of
             None \<Rightarrow> AssertionError
           | Some (m0, m1) \<Rightarrow> RuntimeError (title_error_message m0 m1) (Some tok) None), self)"
  using assms
  by (simp add: ManualDocBookRenderer_heading_tag_def split: prod.splits option.splits)

lemma heading_tag_seen_other:
  assumes "title_seen self" and "tag tok \<noteq> ''h1''"
  shows "ManualDocBookRenderer_heading_tag super self tok = (Inr (super tok), self)"
  using assms
  by (simp add: ManualDocBookRenderer_heading_tag_def split: prod.splits)

lemma heading_tag_unseen:
  assumes "\<not> title_seen self"
  shows "ManualDocBookRenderer_heading_tag super self tok =
     (Inr (''chapter'', dict_or (snd (super tok)) chapter_namespaces), self\<lparr>title_seen := True\<rparr>)"
  using assms
  by (simp add: ManualDocBookRenderer_heading_tag_def split: prod.splits)

lemma fragment_heading_tag_seen_h1:
  assumes "title_seen self" and "tag tok = ''h1''"
  shows "ManualFragmentDocBookRenderer_heading_tag super self tok =
     (Inl (case map_lines tok of
             None \<Rightarrow> AssertionError
           | Some (m0, m1) \<Rightarrow> RuntimeError (title_error_message m0 m1) (Some tok) None), self)"
  using assms
  by (simp add: ManualFragmentDocBookRenderer_heading_tag_def heading_tag_seen_h1)

lemma fragment_heading_tag_seen_other:
  assumes "title_seen self" and "tag tok \<noteq> ''h1''"
  shows "ManualFragmentDocBookRenderer_heading_tag super self tok = (Inr (super tok), self)"
  using assms
  by (simp add: ManualFragmentDocBookRenderer_heading_tag_def heading_tag_seen_other split: prod.splits)

lemma fragment_heading_tag_unseen_h1:
  assumes "\<not> title_seen self" and "tag tok = ''h1''"
  shows "ManualFragmentDocBookRenderer_heading_tag super self tok =
     (Inr (renderer_tag self,
           dict_or (dict_or (snd (super tok)) chapter_namespaces) xinclude_namespace),
      self\<lparr>title_seen := True\<rparr>)"
  using assms
  by (simp add: ManualFragmentDocBookRenderer_heading_tag_def heading_tag_unseen)

lemma fragment_heading_tag_unseen_other:
  assumes "\<not> title_seen self" and "tag tok \<noteq> ''h1''"
  shows "ManualFragmentDocBookRenderer_heading_tag super self tok =
     (Inr (''chapter'', dict_or (snd (super tok)) chapter_namespaces), self\<lparr>title_seen := True\<rparr>)"
  using assms
  by (simp add: ManualFragmentDocBookRenderer_heading_tag_def heading_tag_unseen)

lemma classify_headings_append:
  "classify_headings ht self (xs @ ys) =
     (case classify_headings ht self xs of
        (Inl e, self') \<Rightarrow> (Inl e, self')
      | (Inr rs, self') \<Rightarrow>
          (case classify_headings ht self' ys of
             (Inl e, self'') \<Rightarrow> (Inl e, self'')
           | (Inr rs', self'') \<Rightarrow> (Inr (rs @ rs'), self'')))"
  by (induction xs arbitrary: self) (auto split: prod.splits sum.splits)

lemma heading_tag_sets_title_seen:
  "ManualDocBookRenderer_heading_tag super self tok = (Inr r, self') \<Longrightarrow> title_seen self'"
  by (cases "title_seen self")
     (auto simp: ManualDocBookRenderer_heading_tag_def split: prod.splits if_splits option.splits)

lemma classify_headings_title_seen:
  "classify_headings (ManualDocBookRenderer_heading_tag super) self toks = (Inr rs, self')
     \<Longrightarrow> toks \<noteq> [] \<or> title_seen self \<Longrightarrow> title_seen self'"
proof (induction toks arbitrary: self rs)
  case Nil
  then show ?case by simp
next
  case (Cons t ts)
  from Cons.prems(1) obtain r s1 rs1 where
    h: "ManualDocBookRenderer_heading_tag super self t = (Inr r, s1)" and
    w: "classify_headings (ManualDocBookRenderer_heading_tag super) s1 ts = (Inr rs1, self')"
    by (auto split: prod.splits sum.splits)
  from h have "title_seen s1" by (rule heading_tag_sets_title_seen)
  with w show ?case using Cons.IH by blast
qed

lemma classify_headings_no_h1:
  assumes "\<forall>t \<in> set toks. tag t \<noteq> ''h1''" and "title_seen self"
  shows "classify_headings (ManualDocBookRenderer_heading_tag super) self toks =
           (Inr (map super toks), self)"
  using assms
  by (induction toks) (simp_all add: heading_tag_seen_other)

lemma digit_char_code: "d < 10 \<Longrightarrow> of_char (digit_char d) = (48 + d :: nat)"
  by (simp add: digit_char_def)

lemma str_nat_small: "n < 10 \<Longrightarrow> str_nat n = [digit_char n]"
  by (subst str_nat.simps) simp

lemma str_nat_large:
  "\<not> n < 10 \<Longrightarrow> str_nat n = str_nat (n div 10) @ [digit_char (n mod 10)]"
  by (subst str_nat.simps) simp

lemma str_nat_decode:
  "fold (\<lambda>c a. 10 * a + (of_char c - 48)) (str_nat n) 0 = n"
proof (induction n rule: str_nat.induct)
  case (1 n)
  show ?case
  proof (cases "n < 10")
    case True
    have "str_nat n = [digit_char n]" using True by (rule str_nat_small)
    then show ?thesis using True by (simp add: digit_char_code)
  next
    case False
    have s: "str_nat n = str_nat (n div 10) @ [digit_char (n mod 10)]"
      using False by (rule str_nat_large)
    have ih: "fold (\<lambda>c a. 10 * a + (of_char c - 48)) (str_nat (n div 10)) 0 = n div 10"
      using "1.IH" False by simp
    have d: "of_char (digit_char (n mod 10)) = (48 + n mod 10 :: nat)"
      by (rule digit_char_code) simp
    show ?thesis
      by (simp only: s fold_append comp_apply fold.simps id_apply ih d) simp
  qed
qed

lemma str_nat_inj: "str_nat m = str_nat n \<Longrightarrow> m = n"
proof -
  assume e: "str_nat m = str_nat n"
  have "m = fold (\<lambda>c a. 10 * a + (of_char c - 48)) (str_nat m) 0"
    by (simp only: str_nat_decode)
  also have "\<dots> = fold (\<lambda>c a. 10 * a + (of_char c - 48)) (str_nat n) 0"
    by (simp only: e)
  also have "\<dots> = n" by (rule str_nat_decode)
  finally show ?thesis .
qed

lemma minus_code: "(of_char (CHR ''-'') :: nat) = 45"
  by simp

lemma digit_char_not_minus: "d < 10 \<Longrightarrow> digit_char d \<noteq> CHR ''-''"
proof
  assume d: "d < 10" and e: "digit_char d = CHR ''-''"
  have "(of_char (digit_char d) :: nat) = 45"
    by (simp only: e minus_code)
  then have "48 + d = 45" using digit_char_code [OF d] by (simp only:)
  then show False by arith
qed

lemma str_nat_no_minus: "CHR ''-'' \<notin> set (str_nat n)"
proof (induction n rule: str_nat.induct)
  case (1 n)
  show ?case
  proof (cases "n < 10")
    case True
    have s: "str_nat n = [digit_char n]" using True by (rule str_nat_small)
    have "digit_char n \<noteq> CHR ''-''" using True by (rule digit_char_not_minus)
    then show ?thesis unfolding s by simp
  next
    case False
    have s: "str_nat n = str_nat (n div 10) @ [digit_char (n mod 10)]"
      using False by (rule str_nat_large)
    have ih: "CHR ''-'' \<notin> set (str_nat (n div 10))"
      using "1.IH" False by simp
    have "digit_char (n mod 10) \<noteq> CHR ''-''"
      by (rule digit_char_not_minus) simp
    then show ?thesis
      unfolding s using ih by simp
  qed
qed

lemma str_int_inj: "str_int i = str_int j \<Longrightarrow> i = j"
proof -
  assume eq: "str_int i = str_int j"
  consider (nn) "i < 0" "j < 0" | (np) "i < 0" "\<not> j < 0" | (pn) "\<not> i < 0" "j < 0"
    | (pp) "\<not> i < 0" "\<not> j < 0" by blast
  then show ?thesis
  proof cases
    case nn
    with eq have "str_nat (nat (- i)) = str_nat (nat (- j))" by (simp add: str_int_def)
    then have "nat (- i) = nat (- j)" by (rule str_nat_inj)
    with nn show ?thesis by simp
  next
    case np
    with eq have "CHR ''-'' # str_nat (nat (- i)) = str_nat (nat j)"
      by (simp add: str_int_def)
    then have "CHR ''-'' \<in> set (str_nat (nat j))"
      by (metis list.set_intros(1))
    then show ?thesis using str_nat_no_minus by blast
  next
    case pn
    with eq have "str_nat (nat i) = CHR ''-'' # str_nat (nat (- j))"
      by (simp add: str_int_def)
    then have "CHR ''-'' \<in> set (str_nat (nat i))"
      by (metis list.set_intros(1))
    then show ?thesis using str_nat_no_minus by blast
  next
    case pp
    with eq have "str_nat (nat i) = str_nat (nat j)" by (simp add: str_int_def)
    then have "nat i = nat j" by (rule str_nat_inj)
    with pp show ?thesis by simp
  qed
qed

lemma str_int_12: "str_int 12 = ''12''"
  by code_simp

lemma str_int_117: "str_int 117 = ''117''"
  by code_simp

lemma str_int_2: "str_int 2 = ''2''"
  by code_simp

lemma str_int_3: "str_int 3 = ''3''"
  by code_simp

text \<open>
  Claim C1. A level-1 heading classified when the title has been seen is never given a
  tag: the classifier raises, in chapter mode and in fragment mode, and leaves the
  renderer as it was. For a token that carries its source line range \<open>(m0, m1)\<close> the
  exception is the RuntimeError whose message holds the decimal numerals of \<open>m0\<close> and
  \<open>m1\<close> as \<^verbatim>\<open>lines [m0..m1]\<close> (a token without one fails the \<^verbatim>\<open>assert\<close> before it), and
  different line numbers print as different numerals. In a chapter, a level-1 heading
  that follows any successfully classified heading ends the walk with that error.
\<close>

theorem second_title_heading_fails:
  assumes "title_seen self" and "title_seen fself" and "tag tok = ''h1''"
  shows "(\<exists>e. ManualDocBookRenderer_heading_tag super self tok = (Inl e, self)) \<and>
    (\<exists>e. ManualFragmentDocBookRenderer_heading_tag super fself tok = (Inl e, fself)) \<and>
    (map_lines tok = Some (m0, m1) \<longrightarrow>
       (let err = RuntimeError
              (''only one title heading (# [text...]) allowed per manual chapter '' @
               ''but found a second in lines ['' @ str_int m0 @ ''..'' @ str_int m1 @ '']. '' @
               ''please remove all such headings except the first, split your '' @
               ''chapters, or demote the subsequent headings to (##) or lower.'')
              (Some tok) None
        in ManualDocBookRenderer_heading_tag super self tok = (Inl err, self) \<and>
           ManualFragmentDocBookRenderer_heading_tag super fself tok = (Inl err, fself) \<and>
           (pre \<noteq> [] \<and>
            classify_headings (ManualDocBookRenderer_heading_tag super) self0 pre =
              (Inr rs, self1) \<longrightarrow>
              classify_headings (ManualDocBookRenderer_heading_tag super) self0
                (pre @ tok # post) = (Inl err, self1)))) \<and>
    (str_int m0 = str_int n0 \<and> str_int m1 = str_int n1 \<longrightarrow> m0 = n0 \<and> m1 = n1)"
proof (intro conjI impI)
  show "\<exists>e. ManualDocBookRenderer_heading_tag super self tok = (Inl e, self)"
    using assms by (simp add: heading_tag_seen_h1)
  show "\<exists>e. ManualFragmentDocBookRenderer_heading_tag super fself tok = (Inl e, fself)"
    using assms by (simp add: fragment_heading_tag_seen_h1)
next
  assume m: "map_lines tok = Some (m0, m1)"
  define err where "err = RuntimeError
              (''only one title heading (# [text...]) allowed per manual chapter '' @
               ''but found a second in lines ['' @ str_int m0 @ ''..'' @ str_int m1 @ '']. '' @
               ''please remove all such headings except the first, split your '' @
               ''chapters, or demote the subsequent headings to (##) or lower.'')
              (Some tok) None"
  have err: "err = RuntimeError (title_error_message m0 m1) (Some tok) None"
    by (simp add: err_def title_error_message_def)
  have a: "ManualDocBookRenderer_heading_tag super self tok = (Inl err, self)"
    using assms m by (simp add: heading_tag_seen_h1 err)
  have b: "ManualFragmentDocBookRenderer_heading_tag super fself tok = (Inl err, fself)"
    using assms m by (simp add: fragment_heading_tag_seen_h1 err)
  have c: "classify_headings (ManualDocBookRenderer_heading_tag super) self0
                (pre @ tok # post) = (Inl err, self1)"
    if w: "pre \<noteq> [] \<and>
      classify_headings (ManualDocBookRenderer_heading_tag super) self0 pre = (Inr rs, self1)"
  proof -
    from w have seen: "title_seen self1"
      using classify_headings_title_seen [of super self0 pre rs self1] by simp
    have "ManualDocBookRenderer_heading_tag super self1 tok = (Inl err, self1)"
      using seen assms(3) m by (simp add: heading_tag_seen_h1 err)
    then show ?thesis
      using w by (simp add: classify_headings_append)
  qed
  from a b c show "let err = RuntimeError
              (''only one title heading (# [text...]) allowed per manual chapter '' @
               ''but found a second in lines ['' @ str_int m0 @ ''..'' @ str_int m1 @ '']. '' @
               ''please remove all such headings except the first, split your '' @
               ''chapters, or demote the subsequent headings to (##) or lower.'')
              (Some tok) None
        in ManualDocBookRenderer_heading_tag super self tok = (Inl err, self) \<and>
           ManualFragmentDocBookRenderer_heading_tag super fself tok = (Inl err, fself) \<and>
           (pre \<noteq> [] \<and>
            classify_headings (ManualDocBookRenderer_heading_tag super) self0 pre =
              (Inr rs, self1) \<longrightarrow>
              classify_headings (ManualDocBookRenderer_heading_tag super) self0
                (pre @ tok # post) = (Inl err, self1))"
    unfolding Let_def err_def [symmetric] by blast
next
  assume "str_int m0 = str_int n0 \<and> str_int m1 = str_int n1"
  then show "m0 = n0" and "m1 = n1" by (simp_all add: str_int_inj)
qed

theorem second_title_heading_fails_witness:
  "ManualDocBookRenderer_heading_tag (\<lambda>t. (''section'', [])) \<lparr>title_seen = True\<rparr>
       \<lparr>tag = ''h1'', map_lines = Some (12, 117), info = [], content = []\<rparr> =
     (Inl (RuntimeError
        (''only one title heading (# [text...]) allowed per manual chapter '' @
         ''but found a second in lines [12..117]. '' @
         ''please remove all such headings except the first, split your '' @
         ''chapters, or demote the subsequent headings to (##) or lower.'')
        (Some \<lparr>tag = ''h1'', map_lines = Some (12, 117), info = [], content = []\<rparr>) None),
      \<lparr>title_seen = True\<rparr>) \<and>
   ManualFragmentDocBookRenderer_heading_tag (\<lambda>t. (''section'', []))
       \<lparr>title_seen = True, renderer_tag = ''section''\<rparr>
       \<lparr>tag = ''h1'', map_lines = Some (12, 117), info = [], content = []\<rparr> =
     (Inl (RuntimeError
        (''only one title heading (# [text...]) allowed per manual chapter '' @
         ''but found a second in lines [12..117]. '' @
         ''please remove all such headings except the first, split your '' @
         ''chapters, or demote the subsequent headings to (##) or lower.'')
        (Some \<lparr>tag = ''h1'', map_lines = Some (12, 117), info = [], content = []\<rparr>) None),
      \<lparr>title_seen = True, renderer_tag = ''section''\<rparr>) \<and>
   classify_headings (ManualDocBookRenderer_heading_tag (\<lambda>t. (''section'', [])))
       \<lparr>title_seen = False\<rparr>
       [\<lparr>tag = ''h1'', map_lines = Some (0, 1), info = [], content = []\<rparr>,
        \<lparr>tag = ''h1'', map_lines = Some (12, 117), info = [], content = []\<rparr>,
        \<lparr>tag = ''h2'', map_lines = Some (120, 121), info = [], content = []\<rparr>] =
     (Inl (RuntimeError
        (''only one title heading (# [text...]) allowed per manual chapter '' @
         ''but found a second in lines [12..117]. '' @
         ''please remove all such headings except the first, split your '' @
         ''chapters, or demote the subsequent headings to (##) or lower.'')
        (Some \<lparr>tag = ''h1'', map_lines = Some (12, 117), info = [], content = []\<rparr>) None),
      \<lparr>title_seen = True\<rparr>)"
proof -
  have pre: "classify_headings (ManualDocBookRenderer_heading_tag (\<lambda>t. (''section'', [])))
       \<lparr>title_seen = False\<rparr>
       [\<lparr>tag = ''h1'', map_lines = Some (0, 1), info = [], content = []\<rparr>] =
     (Inr [(''chapter'', dict_or [] chapter_namespaces)], \<lparr>title_seen = True\<rparr>)"
    by (simp add: heading_tag_unseen)
  show ?thesis
    using pre second_title_heading_fails
      [where self = "\<lparr>title_seen = True\<rparr>"
         and fself = "\<lparr>title_seen = True, renderer_tag = ''section''\<rparr>"
         and tok = "\<lparr>tag = ''h1'', map_lines = Some (12, 117), info = [], content = []\<rparr>"
         and super = "\<lambda>t. (''section'', [])" and ?m0.0 = 12 and ?m1.0 = 117
         and pre = "[\<lparr>tag = ''h1'', map_lines = Some (0, 1), info = [], content = []\<rparr>]"
         and ?self0.0 = "\<lparr>title_seen = False\<rparr>"
         and rs = "[(''chapter'', dict_or [] chapter_namespaces)]"
         and ?self1.0 = "\<lparr>title_seen = True\<rparr>"
         and post = "[\<lparr>tag = ''h2'', map_lines = Some (120, 121), info = [], content = []\<rparr>]"]
    by (simp add: str_int_12 str_int_117 Let_def del: classify_headings.simps)
qed

lemma dict_or_xinclude_namespace:
  "dict_or ats xinclude_namespace =
     AList.update ''xmlns:xi'' ''http://www.w3.org/2001/XInclude'' ats"
  by (simp add: dict_or_def xinclude_namespace_def)

text \<open>
  Claim C2. A level-1 heading classified when no title has been seen sets \<open>title_seen\<close>
  and becomes the title container: in chapter mode the tag \<^verbatim>\<open>chapter\<close> with \<^verbatim>\<open>xmlns\<close> and
  \<^verbatim>\<open>xmlns:xlink\<close> stored into the heading's attributes, in fragment mode the root tag of
  the renderer with \<^verbatim>\<open>xmlns\<close>, \<^verbatim>\<open>xmlns:xlink\<close> and \<^verbatim>\<open>xmlns:xi\<close>.
\<close>

theorem first_title_heading_is_title:
  assumes "\<not> title_seen self" and "\<not> title_seen fself" and "tag tok = ''h1''"
  shows "ManualDocBookRenderer_heading_tag super self tok =
      (Inr (''chapter'', dict_or (snd (super tok)) chapter_namespaces),
       self\<lparr>title_seen := True\<rparr>) \<and>
    ManualFragmentDocBookRenderer_heading_tag super fself tok =
      (Inr (renderer_tag fself,
            dict_or (dict_or (snd (super tok)) chapter_namespaces) xinclude_namespace),
       fself\<lparr>title_seen := True\<rparr>) \<and>
    map_of (dict_or (snd (super tok)) chapter_namespaces) =
      (map_of (snd (super tok)))
        (''xmlns'' \<mapsto> ''http://docbook.org/ns/docbook'',
         ''xmlns:xlink'' \<mapsto> ''http://www.w3.org/1999/xlink'') \<and>
    map_of (dict_or (dict_or (snd (super tok)) chapter_namespaces) xinclude_namespace) =
      (map_of (snd (super tok)))
        (''xmlns'' \<mapsto> ''http://docbook.org/ns/docbook'',
         ''xmlns:xlink'' \<mapsto> ''http://www.w3.org/1999/xlink'',
         ''xmlns:xi'' \<mapsto> ''http://www.w3.org/2001/XInclude'')"
proof (intro conjI)
  show "ManualDocBookRenderer_heading_tag super self tok =
      (Inr (''chapter'', dict_or (snd (super tok)) chapter_namespaces),
       self\<lparr>title_seen := True\<rparr>)"
    using assms(1) by (rule heading_tag_unseen)
  show "ManualFragmentDocBookRenderer_heading_tag super fself tok =
      (Inr (renderer_tag fself,
            dict_or (dict_or (snd (super tok)) chapter_namespaces) xinclude_namespace),
       fself\<lparr>title_seen := True\<rparr>)"
    using assms(2,3) by (rule fragment_heading_tag_unseen_h1)
  show "map_of (dict_or (snd (super tok)) chapter_namespaces) =
      (map_of (snd (super tok)))
        (''xmlns'' \<mapsto> ''http://docbook.org/ns/docbook'',
         ''xmlns:xlink'' \<mapsto> ''http://www.w3.org/1999/xlink'')"
    by (rule map_of_chapter_namespaces)
  show "map_of (dict_or (dict_or (snd (super tok)) chapter_namespaces) xinclude_namespace) =
      (map_of (snd (super tok)))
        (''xmlns'' \<mapsto> ''http://docbook.org/ns/docbook'',
         ''xmlns:xlink'' \<mapsto> ''http://www.w3.org/1999/xlink'',
         ''xmlns:xi'' \<mapsto> ''http://www.w3.org/2001/XInclude'')"
    by (simp only: map_of_xinclude_namespace map_of_chapter_namespaces)
qed

theorem first_title_heading_is_title_witness:
  "ManualDocBookRenderer_heading_tag (\<lambda>t. (''section'', [(''xml:id'', ''ch-intro'')]))
       \<lparr>title_seen = False\<rparr>
       \<lparr>tag = ''h1'', map_lines = Some (0, 1), info = [], content = []\<rparr> =
     (Inr (''chapter'',
           [(''xml:id'', ''ch-intro''),
            (''xmlns'', ''http://docbook.org/ns/docbook''),
            (''xmlns:xlink'', ''http://www.w3.org/1999/xlink'')]),
      \<lparr>title_seen = True\<rparr>) \<and>
   ManualFragmentDocBookRenderer_heading_tag (\<lambda>t. (''section'', [(''xml:id'', ''ch-intro'')]))
       \<lparr>title_seen = False, renderer_tag = ''section''\<rparr>
       \<lparr>tag = ''h1'', map_lines = Some (0, 1), info = [], content = []\<rparr> =
     (Inr (''section'',
           [(''xml:id'', ''ch-intro''),
            (''xmlns'', ''http://docbook.org/ns/docbook''),
            (''xmlns:xlink'', ''http://www.w3.org/1999/xlink''),
            (''xmlns:xi'', ''http://www.w3.org/2001/XInclude'')]),
      \<lparr>title_seen = True, renderer_tag = ''section''\<rparr>)"
  using first_title_heading_is_title
    [of "\<lparr>title_seen = False\<rparr>" "\<lparr>title_seen = False, renderer_tag = ''section''\<rparr>"
        "\<lparr>tag = ''h1'', map_lines = Some (0, 1), info = [], content = []\<rparr>"
        "\<lambda>t. (''section'', [(''xml:id'', ''ch-intro'')])"]
  by (simp add: dict_or_def chapter_namespaces_def xinclude_namespace_def)

text \<open>
  Claim C3. A heading of a level other than 1 is to keep its natural tag and attributes
  wherever it stands. The classifier does so once the title has been seen
  (\<open>heading_tag_seen_other\<close>). It does not for a heading classified before any title: it
  tests \<open>title_seen\<close> alone, so an \<^verbatim>\<open>h2\<close> that opens a chapter is returned as \<^verbatim>\<open>chapter\<close>
  with \<^verbatim>\<open>xmlns\<close> and \<^verbatim>\<open>xmlns:xlink\<close>; in a \<^verbatim>\<open>section\<close> fragment it gets neither the root
  tag nor \<^verbatim>\<open>xmlns:xi\<close>; and the level-1 heading that follows it is rejected as a second
  title although it is the first. The evaluation of the code at these inputs:
\<close>

theorem first_heading_below_level_one_becomes_title:
  "ManualDocBookRenderer_heading_tag (\<lambda>t. (''section'', [])) \<lparr>title_seen = False\<rparr>
       \<lparr>tag = ''h2'', map_lines = Some (0, 1), info = [], content = []\<rparr> =
     (Inr (''chapter'',
           [(''xmlns'', ''http://docbook.org/ns/docbook''),
            (''xmlns:xlink'', ''http://www.w3.org/1999/xlink'')]),
      \<lparr>title_seen = True\<rparr>) \<and>
   ManualFragmentDocBookRenderer_heading_tag (\<lambda>t. (''section'', []))
       \<lparr>title_seen = False, renderer_tag = ''section''\<rparr>
       \<lparr>tag = ''h2'', map_lines = Some (0, 1), info = [], content = []\<rparr> =
     (Inr (''chapter'',
           [(''xmlns'', ''http://docbook.org/ns/docbook''),
            (''xmlns:xlink'', ''http://www.w3.org/1999/xlink'')]),
      \<lparr>title_seen = True, renderer_tag = ''section''\<rparr>) \<and>
   classify_headings (ManualDocBookRenderer_heading_tag (\<lambda>t. (''section'', [])))
       \<lparr>title_seen = False\<rparr>
       [\<lparr>tag = ''h2'', map_lines = Some (0, 1), info = [], content = []\<rparr>,
        \<lparr>tag = ''h1'', map_lines = Some (2, 3), info = [], content = []\<rparr>] =
     (Inl (RuntimeError
        (''only one title heading (# [text...]) allowed per manual chapter '' @
         ''but found a second in lines [2..3]. '' @
         ''please remove all such headings except the first, split your '' @
         ''chapters, or demote the subsequent headings to (##) or lower.'')
        (Some \<lparr>tag = ''h1'', map_lines = Some (2, 3), info = [], content = []\<rparr>) None),
      \<lparr>title_seen = True\<rparr>)"
  by (simp add: ManualDocBookRenderer_heading_tag_def
      ManualFragmentDocBookRenderer_heading_tag_def dict_or_def chapter_namespaces_def
      title_error_message_def str_int_2 str_int_3)

text \<open>
  Claim C6, as the source has it. In fragment mode with the root tag \<^verbatim>\<open>section\<close>, a level-1
  heading classified when no title has been seen is returned with the tag \<^verbatim>\<open>section\<close> and
  with the attributes chapter mode gives it (\<^verbatim>\<open>xmlns\<close> and \<^verbatim>\<open>xmlns:xlink\<close> included), into
  which \<^verbatim>\<open>xmlns:xi\<close> is stored. The two attribute dictionaries differ, unless the heading's
  natural attributes already hold that value of \<^verbatim>\<open>xmlns:xi\<close>.
\<close>

theorem fragment_section_root_attributes:
  assumes "\<not> title_seen fself" and "\<not> title_seen self" and "tag tok = ''h1''"
    and "renderer_tag fself = ''section''"
  shows "ManualDocBookRenderer_heading_tag super self tok =
      (Inr (''chapter'', dict_or (snd (super tok)) chapter_namespaces),
       self\<lparr>title_seen := True\<rparr>) \<and>
    ManualFragmentDocBookRenderer_heading_tag super fself tok =
      (Inr (''section'',
            dict_or (dict_or (snd (super tok)) chapter_namespaces) xinclude_namespace),
       fself\<lparr>title_seen := True\<rparr>) \<and>
    map_of (dict_or (dict_or (snd (super tok)) chapter_namespaces) xinclude_namespace) =
      (map_of (dict_or (snd (super tok)) chapter_namespaces))
        (''xmlns:xi'' \<mapsto> ''http://www.w3.org/2001/XInclude'') \<and>
    map_of (dict_or (dict_or (snd (super tok)) chapter_namespaces) xinclude_namespace)
        ''xmlns'' = Some ''http://docbook.org/ns/docbook'' \<and>
    map_of (dict_or (dict_or (snd (super tok)) chapter_namespaces) xinclude_namespace)
        ''xmlns:xlink'' = Some ''http://www.w3.org/1999/xlink'' \<and>
    (dict_or (dict_or (snd (super tok)) chapter_namespaces) xinclude_namespace =
       dict_or (snd (super tok)) chapter_namespaces
     \<longleftrightarrow> map_of (snd (super tok)) ''xmlns:xi'' = Some ''http://www.w3.org/2001/XInclude'')"
proof (intro conjI)
  show "ManualDocBookRenderer_heading_tag super self tok =
      (Inr (''chapter'', dict_or (snd (super tok)) chapter_namespaces),
       self\<lparr>title_seen := True\<rparr>)"
    using assms(2) by (rule heading_tag_unseen)
  show "ManualFragmentDocBookRenderer_heading_tag super fself tok =
      (Inr (''section'',
            dict_or (dict_or (snd (super tok)) chapter_namespaces) xinclude_namespace),
       fself\<lparr>title_seen := True\<rparr>)"
    using fragment_heading_tag_unseen_h1 [OF assms(1,3), of super] assms(4) by simp
  show "map_of (dict_or (dict_or (snd (super tok)) chapter_namespaces) xinclude_namespace) =
      (map_of (dict_or (snd (super tok)) chapter_namespaces))
        (''xmlns:xi'' \<mapsto> ''http://www.w3.org/2001/XInclude'')"
    by (rule map_of_xinclude_namespace)
  show "map_of (dict_or (dict_or (snd (super tok)) chapter_namespaces) xinclude_namespace)
        ''xmlns'' = Some ''http://docbook.org/ns/docbook''"
    by (simp add: map_of_xinclude_namespace map_of_chapter_namespaces)
  show "map_of (dict_or (dict_or (snd (super tok)) chapter_namespaces) xinclude_namespace)
        ''xmlns:xlink'' = Some ''http://www.w3.org/1999/xlink''"
    by (simp add: map_of_xinclude_namespace map_of_chapter_namespaces)
  have "dict_or (dict_or (snd (super tok)) chapter_namespaces) xinclude_namespace =
       dict_or (snd (super tok)) chapter_namespaces
     \<longleftrightarrow> map_of (dict_or (snd (super tok)) chapter_namespaces) ''xmlns:xi'' =
           Some ''http://www.w3.org/2001/XInclude''"
    by (simp only: dict_or_xinclude_namespace update_same_iff)
  then show "dict_or (dict_or (snd (super tok)) chapter_namespaces) xinclude_namespace =
       dict_or (snd (super tok)) chapter_namespaces
     \<longleftrightarrow> map_of (snd (super tok)) ''xmlns:xi'' = Some ''http://www.w3.org/2001/XInclude''"
    by (simp add: map_of_chapter_namespaces)
qed

theorem fragment_section_root_attributes_witness:
  "ManualFragmentDocBookRenderer_heading_tag (\<lambda>t. (''section'', [(''xml:id'', ''sec-a'')]))
       \<lparr>title_seen = False, renderer_tag = ''section''\<rparr>
       \<lparr>tag = ''h1'', map_lines = Some (0, 1), info = [], content = []\<rparr> =
     (Inr (''section'',
           [(''xml:id'', ''sec-a''),
            (''xmlns'', ''http://docbook.org/ns/docbook''),
            (''xmlns:xlink'', ''http://www.w3.org/1999/xlink''),
            (''xmlns:xi'', ''http://www.w3.org/2001/XInclude'')]),
      \<lparr>title_seen = True, renderer_tag = ''section''\<rparr>) \<and>
   ManualDocBookRenderer_heading_tag (\<lambda>t. (''section'', [(''xml:id'', ''sec-a'')]))
       \<lparr>title_seen = False\<rparr>
       \<lparr>tag = ''h1'', map_lines = Some (0, 1), info = [], content = []\<rparr> =
     (Inr (''chapter'',
           [(''xml:id'', ''sec-a''),
            (''xmlns'', ''http://docbook.org/ns/docbook''),
            (''xmlns:xlink'', ''http://www.w3.org/1999/xlink'')]),
      \<lparr>title_seen = True\<rparr>)"
  using fragment_section_root_attributes
    [of "\<lparr>title_seen = False, renderer_tag = ''section''\<rparr>" "\<lparr>title_seen = False\<rparr>"
        "\<lparr>tag = ''h1'', map_lines = Some (0, 1), info = [], content = []\<rparr>"
        "\<lambda>t. (''section'', [(''xml:id'', ''sec-a'')])"]
  by (simp add: dict_or_def chapter_namespaces_def xinclude_namespace_def)

theorem fragment_section_root_attributes_counterexample:
  "fst (ManualFragmentDocBookRenderer_heading_tag (\<lambda>t. (''section'', []))
          \<lparr>title_seen = False, renderer_tag = ''section''\<rparr>
          \<lparr>tag = ''h1'', map_lines = Some (0, 1), info = [], content = []\<rparr>) =
     Inr (''section'',
          [(''xmlns'', ''http://docbook.org/ns/docbook''),
           (''xmlns:xlink'', ''http://www.w3.org/1999/xlink''),
           (''xmlns:xi'', ''http://www.w3.org/2001/XInclude'')]) \<and>
   fst (ManualFragmentDocBookRenderer_heading_tag (\<lambda>t. (''section'', []))
          \<lparr>title_seen = False, renderer_tag = ''section''\<rparr>
          \<lparr>tag = ''h1'', map_lines = Some (0, 1), info = [], content = []\<rparr>) \<noteq>
     Inr (''section'', [(''xmlns:xi'', ''http://www.w3.org/2001/XInclude'')])"
  by (simp add: ManualFragmentDocBookRenderer_heading_tag_def
      ManualDocBookRenderer_heading_tag_def dict_or_def chapter_namespaces_def
      xinclude_namespace_def)

section \<open>Properties of the block renderer\<close>

lemma replace_char_concat:
  "replace_char old new (concat xss) = concat (map (replace_char old new) xss)"
  by (induction xss) (simp_all add: replace_char_def)

lemma replace_char_removes: "old \<notin> set new \<Longrightarrow> old \<notin> set (replace_char old new s)"
  by (induction s) (simp_all add: replace_char_def)

lemma replace_char_keeps_absent:
  "c \<notin> set s \<Longrightarrow> c \<notin> set new \<Longrightarrow> c \<notin> set (replace_char old new s)"
  by (induction s) (simp_all add: replace_char_def)

lemma escape_char: "escape [c] [] = xml_entity c"
  by (simp add: escape_def replace_char_def xml_entity_def)

lemma escape_Cons: "escape (c # s) [] = xml_entity c @ escape s []"
proof -
  have "replace_char (CHR ''&'') ''&amp;'' (c # s) =
        replace_char (CHR ''&'') ''&amp;'' [c] @ replace_char (CHR ''&'') ''&amp;'' s"
    by (simp add: replace_char_def)
  moreover have "replace_char old new (xs @ ys) = replace_char old new xs @ replace_char old new ys"
    for old new xs ys
    by (simp add: replace_char_def)
  ultimately have "escape (c # s) [] = escape [c] [] @ escape s []"
    by (simp add: escape_def)
  then show ?thesis by (simp add: escape_char)
qed

lemma escape_is_entity_escape: "escape s [] = concat (map xml_entity s)"
proof (induction s)
  case Nil
  show ?case by (simp add: escape_def replace_char_def)
next
  case (Cons c s)
  then show ?case by (simp add: escape_Cons)
qed

lemma escape_no_markup:
  "CHR ''<'' \<notin> set (escape s ents)" if "\<forall>(k, v) \<in> set ents. CHR ''<'' \<notin> set v"
  using that
proof (induction ents arbitrary: s rule: rev_induct)
  case Nil
  show ?case by (simp add: escape_def replace_char_removes)
next
  case (snoc p ents)
  obtain k v where p: "p = (k, v)" by (cases p)
  have "escape s (ents @ [p]) = replace_char k v (escape s ents)"
    by (simp add: escape_def p)
  moreover have "CHR ''<'' \<notin> set (escape s ents)" using snoc by simp
  moreover have "CHR ''<'' \<notin> set v" using snoc.prems p by simp
  ultimately show ?case by (simp add: replace_char_keeps_absent)
qed

lemma escape_no_gt: "CHR ''>'' \<notin> set (escape s [])"
  by (simp add: escape_def replace_char_removes replace_char_keeps_absent)

lemma quoteattr_shape:
  "\<exists>q body. quoteattr s = q # body @ [q] \<and> (q = CHR 0x22 \<or> q = CHR 0x27) \<and>
     q \<notin> set body \<and> CHR ''<'' \<notin> set body"
proof -
  define d where "d = escape s [(CHR 0x0A, ''&#10;''), (CHR 0x0D, ''&#13;''), (CHR 0x09, ''&#9;'')]"
  have lt: "CHR ''<'' \<notin> set d"
    unfolding d_def by (rule escape_no_markup) simp
  consider (a) "CHR 0x22 \<notin> set d" | (b) "CHR 0x22 \<in> set d" "CHR 0x27 \<notin> set d"
    | (c) "CHR 0x22 \<in> set d" "CHR 0x27 \<in> set d" by blast
  then show ?thesis
  proof cases
    case a
    then have "quoteattr s = CHR 0x22 # d @ [CHR 0x22]"
      by (simp add: quoteattr_def d_def [symmetric])
    with a lt show ?thesis by blast
  next
    case b
    then have "quoteattr s = CHR 0x27 # d @ [CHR 0x27]"
      by (simp add: quoteattr_def d_def [symmetric])
    with b lt show ?thesis by blast
  next
    case c
    then have "quoteattr s = CHR 0x22 # replace_char (CHR 0x22) ''&quot;'' d @ [CHR 0x22]"
      by (simp add: quoteattr_def d_def [symmetric])
    moreover have "CHR 0x22 \<notin> set (replace_char (CHR 0x22) ''&quot;'' d)"
      by (rule replace_char_removes) simp
    moreover have "CHR ''<'' \<notin> set (replace_char (CHR 0x22) ''&quot;'' d)"
      using lt by (simp add: replace_char_keeps_absent)
    ultimately show ?thesis by blast
  qed
qed

text \<open>
  Claim C4. A fence whose info string is \<^verbatim>\<open>{=docbook}\<close> renders as its body, unchanged.
  Any other fence renders as a \<^verbatim>\<open>programlisting\<close> element, with a \<^verbatim>\<open>language\<close> attribute
  exactly when the info string is not empty, its value quoted by \<open>quoteattr\<close>; an indented
  code block renders as a \<^verbatim>\<open>programlisting\<close> element without attribute. In both the body
  is the entity escaping of the content, which holds no \<^verbatim>\<open><\<close> and no \<^verbatim>\<open>>\<close>; the quoted
  attribute value stands between two equal quote characters and holds neither that
  character nor \<^verbatim>\<open><\<close>.
\<close>

theorem fence_and_code_block:
  "(info tok = ''{=docbook}'' \<longrightarrow> fence tok = content tok) \<and>
   (info tok \<noteq> ''{=docbook}'' \<and> info tok \<noteq> [] \<longrightarrow>
      fence tok = ''<programlisting language='' @ quoteattr (info tok) @ ''>'' @ [CHR 0x0A] @
        concat (map xml_entity (content tok)) @ ''</programlisting>'') \<and>
   (info tok = [] \<longrightarrow>
      fence tok = ''<programlisting>'' @ [CHR 0x0A] @
        concat (map xml_entity (content tok)) @ ''</programlisting>'') \<and>
   code_block tok = ''<programlisting>'' @ [CHR 0x0A] @
     concat (map xml_entity (content tok)) @ ''</programlisting>'' \<and>
   CHR ''<'' \<notin> set (concat (map xml_entity (content tok))) \<and>
   CHR ''>'' \<notin> set (concat (map xml_entity (content tok))) \<and>
   (\<exists>q body. quoteattr (info tok) = q # body @ [q] \<and> (q = CHR 0x22 \<or> q = CHR 0x27) \<and>
      q \<notin> set body \<and> CHR ''<'' \<notin> set body)"
proof (intro conjI impI)
  show "fence tok = content tok" if "info tok = ''{=docbook}''"
    using that by (simp add: fence_def)
  show "fence tok = ''<programlisting language='' @ quoteattr (info tok) @ ''>'' @ [CHR 0x0A] @
        concat (map xml_entity (content tok)) @ ''</programlisting>''"
    if "info tok \<noteq> ''{=docbook}'' \<and> info tok \<noteq> []"
    using that by (simp add: fence_def escape_is_entity_escape del: concat_map_singleton)
  show "fence tok = ''<programlisting>'' @ [CHR 0x0A] @
        concat (map xml_entity (content tok)) @ ''</programlisting>''"
    if "info tok = []"
    using that by (simp add: fence_def escape_is_entity_escape)
  show "code_block tok = ''<programlisting>'' @ [CHR 0x0A] @
     concat (map xml_entity (content tok)) @ ''</programlisting>''"
    by (simp add: code_block_def escape_is_entity_escape)
  show "CHR ''<'' \<notin> set (concat (map xml_entity (content tok)))"
    using escape_no_markup [of "[]" "content tok"] by (simp add: escape_is_entity_escape)
  show "CHR ''>'' \<notin> set (concat (map xml_entity (content tok)))"
    using escape_no_gt [of "content tok"] by (simp add: escape_is_entity_escape)
  show "\<exists>q body. quoteattr (info tok) = q # body @ [q] \<and> (q = CHR 0x22 \<or> q = CHR 0x27) \<and>
      q \<notin> set body \<and> CHR ''<'' \<notin> set body"
    by (rule quoteattr_shape)
qed

lemma quoteattr_python: "quoteattr ''python'' = [CHR 0x22] @ ''python'' @ [CHR 0x22]"
  by (simp add: quoteattr_def escape_def replace_char_def)

theorem fence_and_code_block_witness:
  "fence \<lparr>tag = ''code'', map_lines = Some (2, 5), info = ''{=docbook}'',
          content = ''<para>a &amp; b</para>''\<rparr> = ''<para>a &amp; b</para>'' \<and>
   fence \<lparr>tag = ''code'', map_lines = Some (2, 5), info = ''python'',
          content = ''if a < b & c > d: pass''\<rparr> =
     ''<programlisting language='' @ [CHR 0x22] @ ''python'' @ [CHR 0x22] @ ''>'' @ [CHR 0x0A] @
     ''if a &lt; b &amp; c &gt; d: pass'' @ ''</programlisting>'' \<and>
   fence \<lparr>tag = ''code'', map_lines = Some (2, 5), info = [],
          content = ''x<y''\<rparr> =
     ''<programlisting>'' @ [CHR 0x0A] @ ''x&lt;y'' @ ''</programlisting>''"
  using
    fence_and_code_block [of "\<lparr>tag = ''code'', map_lines = Some (2, 5), info = ''{=docbook}'',
          content = ''<para>a &amp; b</para>''\<rparr>"]
    fence_and_code_block [of "\<lparr>tag = ''code'', map_lines = Some (2, 5), info = ''python'',
          content = ''if a < b & c > d: pass''\<rparr>"]
    fence_and_code_block [of "\<lparr>tag = ''code'', map_lines = Some (2, 5), info = [],
          content = ''x<y''\<rparr>"]
  by (simp add: xml_entity_def quoteattr_python)

section \<open>Properties of the section converter\<close>

lemma finalize_loop_pieces:
  "finalize_loop result ss = result @ concat (map section_pieces ss)"
  by (induction ss arbitrary: result)
     (simp_all add: section_pieces_def split: option.splits)

text \<open>
  Claim C5, as the source has it. \<open>finalize\<close> joins with newlines, for each section in
  insertion order, the opening tag, the chapter strings of the section in insertion order
  and \<^verbatim>\<open></section>\<close>. The opening tag is \<^verbatim>\<open><section id=...>\<close> with the id quoted by
  \<open>quoteattr\<close> when the section has an id, and \<^verbatim>\<open><section >\<close>, with a space before the
  bracket, when it has none.
\<close>

theorem finalize_sections:
  "finalize self = join [CHR 0x0A] (concat (map section_pieces (sections self))) \<and>
   section_pieces \<lparr>section_id = None, chapters = chs\<rparr> =
     [''<section >''] @ chs @ [''</section>''] \<and>
   section_pieces \<lparr>section_id = Some i, chapters = chs\<rparr> =
     [''<section id='' @ quoteattr i @ ''>''] @ chs @ [''</section>'']"
  by (simp add: finalize_def finalize_loop_pieces section_pieces_def)

lemma quoteattr_ch_intro: "quoteattr ''ch-intro'' = [CHR 0x22] @ ''ch-intro'' @ [CHR 0x22]"
  by (simp add: quoteattr_def escape_def replace_char_def)

theorem finalize_sections_witness:
  "finalize
     (snd (add_section (\<lambda>r text. (Inr (''<chapter>'' @ text @ ''</chapter>''), r\<lparr>title_seen := True\<rparr>))
             (\<lambda>p. Text p)
             (snd (add_section
                     (\<lambda>r text. (Inr (''<chapter>'' @ text @ ''</chapter>''), r\<lparr>title_seen := True\<rparr>))
                     (\<lambda>p. Text p) BaseConverter_init None [''one'', ''two'']))
             (Some ''ch-intro'') [''three''])) =
   ''<section >'' @ [CHR 0x0A] @ ''<chapter>one</chapter>'' @ [CHR 0x0A] @
   ''<chapter>two</chapter>'' @ [CHR 0x0A] @ ''</section>'' @ [CHR 0x0A] @
   ''<section id='' @ [CHR 0x22] @ ''ch-intro'' @ [CHR 0x22] @ ''>'' @ [CHR 0x0A] @
   ''<chapter>three</chapter>'' @ [CHR 0x0A] @ ''</section>''"
proof -
  have s: "sections
     (snd (add_section (\<lambda>r text. (Inr (''<chapter>'' @ text @ ''</chapter>''), r\<lparr>title_seen := True\<rparr>))
             (\<lambda>p. Text p)
             (snd (add_section
                     (\<lambda>r text. (Inr (''<chapter>'' @ text @ ''</chapter>''), r\<lparr>title_seen := True\<rparr>))
                     (\<lambda>p. Text p) BaseConverter_init None [''one'', ''two'']))
             (Some ''ch-intro'') [''three''])) =
    [\<lparr>section_id = None, chapters = [''<chapter>one</chapter>'', ''<chapter>two</chapter>'']\<rparr>,
     \<lparr>section_id = Some ''ch-intro'', chapters = [''<chapter>three</chapter>'']\<rparr>]"
    by (simp add: add_section_def BaseConverter_init_def RenderedSection_init_def
        ManualDocBookRenderer_init_def)
  show ?thesis
    using finalize_sections
      [of "snd (add_section (\<lambda>r text. (Inr (''<chapter>'' @ text @ ''</chapter>''), r\<lparr>title_seen := True\<rparr>))
             (\<lambda>p. Text p)
             (snd (add_section
                     (\<lambda>r text. (Inr (''<chapter>'' @ text @ ''</chapter>''), r\<lparr>title_seen := True\<rparr>))
                     (\<lambda>p. Text p) BaseConverter_init None [''one'', ''two'']))
             (Some ''ch-intro'') [''three''])"]
    by (simp only: s) (simp add: section_pieces_def quoteattr_ch_intro)
qed

theorem finalize_sections_counterexample:
  "finalize \<lparr>sections = [\<lparr>section_id = None, chapters = [''<chapter/>'']\<rparr>],
             renderer = \<lparr>title_seen = False\<rparr>\<rparr> =
     ''<section >'' @ [CHR 0x0A] @ ''<chapter/>'' @ [CHR 0x0A] @ ''</section>'' \<and>
   finalize \<lparr>sections = [\<lparr>section_id = None, chapters = [''<chapter/>'']\<rparr>],
             renderer = \<lparr>title_seen = False\<rparr>\<rparr> \<noteq>
     ''<section>'' @ [CHR 0x0A] @ ''<chapter/>'' @ [CHR 0x0A] @ ''</section>''"
  by (simp add: finalize_def)

text \<open>
  Claim C10. \<open>finalize\<close> on a converter to which no section was added, whatever the state
  of its renderer, returns the empty string.
\<close>

theorem finalize_no_sections:
  "finalize BaseConverter_init = [] \<and> finalize \<lparr>sections = [], renderer = r\<rparr> = []"
  by (simp add: finalize_def BaseConverter_init_def)

section \<open>Properties of the chapter loop and of the fragment converter\<close>

lemma fresh_renderer: "(r :: manual_renderer)\<lparr>title_seen := False\<rparr> = \<lparr>title_seen = False\<rparr>"
  by (cases r) simp

lemma list_case_nonempty: "xs \<noteq> [] \<Longrightarrow> (case xs of [] \<Rightarrow> a | x # ys \<Rightarrow> b) = b"
  by (cases xs) simp_all

lemma add_chapters_fails:
  assumes "render_chapter render fs p = Inl e" and "sections self = ss @ [s]"
  shows "fst (add_chapters render fs self (p # ps)) = Inl (chapter_error p e) \<and>
         sections (snd (add_chapters render fs self (p # ps))) = ss @ [s]"
  using assms
  by (cases "fs p")
     (auto simp: render_chapter_def fresh_renderer Let_def
           split: list.splits prod.splits sum.splits)

lemma add_chapters_step:
  assumes "render_chapter render fs p = Inr out" and "sections self = ss @ [s]"
  shows "\<exists>self1. sections self1 = ss @ [s\<lparr>chapters := chapters s @ [out]\<rparr>] \<and>
           add_chapters render fs self (p # ps) = add_chapters render fs self1 ps"
proof -
  from assms(1) obtain body r where
    f: "fs p = Text body" and r: "render \<lparr>title_seen = False\<rparr> body = (Inr out, r)"
    by (cases "fs p"; cases "render \<lparr>title_seen = False\<rparr> (case fs p of Text t \<Rightarrow> t)")
       (auto simp: render_chapter_def)
  have "add_chapters render fs self (p # ps) =
        add_chapters render fs
          (self\<lparr>renderer := r, sections := ss @ [s\<lparr>chapters := chapters s @ [out]\<rparr>]\<rparr>) ps"
    using f r assms(2)
    by (simp add: fresh_renderer Let_def list_case_nonempty)
  moreover have
    "sections (self\<lparr>renderer := r, sections := ss @ [s\<lparr>chapters := chapters s @ [out]\<rparr>]\<rparr>) =
       ss @ [s\<lparr>chapters := chapters s @ [out]\<rparr>]"
    by simp
  ultimately show ?thesis by blast
qed

lemma add_chapters_prefix:
  assumes "sections self = ss @ [s]" and "k < length ps"
    and "map (render_chapter render fs) (take k ps) = map Inr outs"
    and "render_chapter render fs (ps ! k) = Inl e"
  shows "fst (add_chapters render fs self ps) = Inl (chapter_error (ps ! k) e) \<and>
         sections (snd (add_chapters render fs self ps)) =
           ss @ [s\<lparr>chapters := chapters s @ outs\<rparr>]"
  using assms
proof (induction ps arbitrary: self s k outs)
  case Nil
  then show ?case by simp
next
  case (Cons p ps)
  show ?case
  proof (cases k)
    case 0
    with Cons.prems have "render_chapter render fs p = Inl e" and "outs = []" by simp_all
    with Cons.prems(1) show ?thesis
      using add_chapters_fails [of render fs p e self ss s ps]
      by (simp add: 0 del: add_chapters.simps)
  next
    case (Suc k')
    with Cons.prems(3) obtain out outs' where
      outs: "outs = out # outs'" and
      p: "render_chapter render fs p = Inr out" and
      rest: "map (render_chapter render fs) (take k' ps) = map Inr outs'"
      by (cases outs) auto
    from add_chapters_step [OF p Cons.prems(1), of ps] obtain self1 where
      s1: "sections self1 = ss @ [s\<lparr>chapters := chapters s @ [out]\<rparr>]" and
      eq: "add_chapters render fs self (p # ps) = add_chapters render fs self1 ps"
      by blast
    have "k' < length ps" using Cons.prems(2) Suc by simp
    moreover have "render_chapter render fs (ps ! k') = Inl e"
      using Cons.prems(4) Suc by simp
    ultimately have
      "fst (add_chapters render fs self1 ps) = Inl (chapter_error (ps ! k') e) \<and>
       sections (snd (add_chapters render fs self1 ps)) =
         ss @ [(s\<lparr>chapters := chapters s @ [out]\<rparr>)
                 \<lparr>chapters := chapters (s\<lparr>chapters := chapters s @ [out]\<rparr>) @ outs'\<rparr>]"
      using Cons.IH [OF s1 _ rest] by blast
    then show ?thesis by (simp add: eq outs Suc del: add_chapters.simps)
  qed
qed

lemma add_chapters_all:
  assumes "sections self = ss @ [s]"
    and "map (render_chapter render fs) ps = map Inr outs"
  shows "fst (add_chapters render fs self ps) = Inr () \<and>
         sections (snd (add_chapters render fs self ps)) =
           ss @ [s\<lparr>chapters := chapters s @ outs\<rparr>]"
  using assms
proof (induction ps arbitrary: self s outs)
  case Nil
  then show ?case by simp
next
  case (Cons p ps)
  from Cons.prems(2) obtain out outs' where
    outs: "outs = out # outs'" and
    p: "render_chapter render fs p = Inr out" and
    rest: "map (render_chapter render fs) ps = map Inr outs'"
    by (cases outs) auto
  from add_chapters_step [OF p Cons.prems(1), of ps] obtain self1 where
    s1: "sections self1 = ss @ [s\<lparr>chapters := chapters s @ [out]\<rparr>]" and
    eq: "add_chapters render fs self (p # ps) = add_chapters render fs self1 ps"
    by blast
  show ?case
    using Cons.IH [OF s1 rest] by (simp add: eq outs del: add_chapters.simps)
qed

text \<open>The outcomes of the chapters of a list: all succeed, or there is a first failure.\<close>

lemma first_failure:
  "(\<exists>outs. map f ps = map Inr outs) \<or>
   (\<exists>k outs e. k < length ps \<and> map f (take k ps) = map Inr outs \<and> f (ps ! k) = Inl e)"
proof (induction ps)
  case Nil
  show ?case by simp
next
  case (Cons p ps)
  show ?case
  proof (cases "f p")
    case (Inl e)
    then have "0 < length (p # ps) \<and> map f (take 0 (p # ps)) = map Inr [] \<and>
               f ((p # ps) ! 0) = Inl e"
      by simp
    then show ?thesis by blast
  next
    case (Inr out)
    from Cons.IH show ?thesis
    proof
      assume "\<exists>outs. map f ps = map Inr outs"
      then obtain outs where "map f ps = map Inr outs" by blast
      then have "map f (p # ps) = map Inr (out # outs)" using Inr by simp
      then show ?thesis by blast
    next
      assume "\<exists>k outs e. k < length ps \<and> map f (take k ps) = map Inr outs \<and> f (ps ! k) = Inl e"
      then obtain k outs e where
        "k < length ps" "map f (take k ps) = map Inr outs" "f (ps ! k) = Inl e" by blast
      then have "Suc k < length (p # ps) \<and>
                 map f (take (Suc k) (p # ps)) = map Inr (out # outs) \<and>
                 f ((p # ps) ! Suc k) = Inl e"
        using Inr by simp
      then show ?thesis by blast
    qed
  qed
qed

lemma add_section_sections:
  "sections (self\<lparr>sections := sections self @ [RenderedSection_init i]\<rparr>) =
     sections self @ [\<lparr>section_id = i, chapters = []\<rparr>]"
  by (simp add: RenderedSection_init_def)

lemma add_section_prefix:
  assumes "k < length ps"
    and "map (render_chapter render fs) (take k ps) = map Inr outs"
    and "render_chapter render fs (ps ! k) = Inl e"
  shows "fst (add_section render fs self i ps) = Inl (chapter_error (ps ! k) e) \<and>
         sections (snd (add_section render fs self i ps)) =
           sections self @ [\<lparr>section_id = i, chapters = outs\<rparr>]"
  using add_chapters_prefix [OF add_section_sections assms, of self i]
  by (simp add: add_section_def)

lemma add_section_all:
  assumes "map (render_chapter render fs) ps = map Inr outs"
  shows "fst (add_section render fs self i ps) = Inr () \<and>
         sections (snd (add_section render fs self i ps)) =
           sections self @ [\<lparr>section_id = i, chapters = outs\<rparr>]"
  using add_chapters_all [OF add_section_sections assms, of self i]
  by (simp add: add_section_def)

lemma add_section_Inl:
  assumes "fst (add_section render fs self i ps) = Inl err"
  shows "\<exists>k outs e. k < length ps \<and>
           map (render_chapter render fs) (take k ps) = map Inr outs \<and>
           render_chapter render fs (ps ! k) = Inl e \<and> err = chapter_error (ps ! k) e"
proof -
  from first_failure [of "render_chapter render fs" ps] show ?thesis
  proof
    assume "\<exists>outs. map (render_chapter render fs) ps = map Inr outs"
    then obtain outs where "map (render_chapter render fs) ps = map Inr outs" by blast
    then have "fst (add_section render fs self i ps) = Inr ()"
      using add_section_all by blast
    with assms show ?thesis by simp
  next
    assume "\<exists>k outs e. k < length ps \<and>
      map (render_chapter render fs) (take k ps) = map Inr outs \<and>
      render_chapter render fs (ps ! k) = Inl e"
    then obtain k outs e where
      k: "k < length ps" "map (render_chapter render fs) (take k ps) = map Inr outs"
         "render_chapter render fs (ps ! k) = Inl e"
      by blast
    from add_section_prefix [OF k, of self i] assms
    have "err = chapter_error (ps ! k) e" by simp
    with k show ?thesis by blast
  qed
qed

lemma add_section_Inr:
  assumes "fst (add_section render fs self i ps) = Inr u"
  shows "\<exists>outs. map (render_chapter render fs) ps = map Inr outs"
proof -
  from first_failure [of "render_chapter render fs" ps] show ?thesis
  proof
    assume "\<exists>k outs e. k < length ps \<and>
      map (render_chapter render fs) (take k ps) = map Inr outs \<and>
      render_chapter render fs (ps ! k) = Inl e"
    then obtain k outs e where
      k: "k < length ps" "map (render_chapter render fs) (take k ps) = map Inr outs"
         "render_chapter render fs (ps ! k) = Inl e"
      by blast
    from add_section_prefix [OF k, of self i] assms show ?thesis by simp
  qed
qed

lemma fragment_renderer_reset:
  "(r :: fragment_renderer)\<lparr>title_seen := False, renderer_tag := tg\<rparr> =
     \<lparr>title_seen = False, renderer_tag = tg\<rparr>"
  by (cases r) simp

lemma convert_result:
  "fst (convert render fs self file tg) =
     (case fs file of
        OpenError e \<Rightarrow> Inl (fragment_error tg file e)
      | ReadError e \<Rightarrow> Inl (fragment_error tg file e)
      | Text text \<Rightarrow>
          (case fst (render \<lparr>title_seen = False, renderer_tag = tg\<rparr> text) of
             Inl e \<Rightarrow> Inl (fragment_error tg file e)
           | Inr out \<Rightarrow> Inr out))"
  by (simp add: convert_def fragment_renderer_reset
      split: file_result.splits prod.splits sum.splits)

lemma add_chapters_renderer_irrelevant:
  "fst (add_chapters render fs \<lparr>sections = ss, renderer = r\<rparr> ps) =
     fst (add_chapters render fs \<lparr>sections = ss, renderer = r'\<rparr> ps) \<and>
   sections (snd (add_chapters render fs \<lparr>sections = ss, renderer = r\<rparr> ps)) =
     sections (snd (add_chapters render fs \<lparr>sections = ss, renderer = r'\<rparr> ps))"
proof (cases ps)
  case Nil
  then show ?thesis by simp
next
  case (Cons p rest)
  show ?thesis
  proof (cases "fs p")
    case (OpenError e)
    then show ?thesis by (simp add: Cons)
  next
    case (ReadError e)
    then show ?thesis by (simp add: Cons fresh_renderer Let_def)
  next
    case (Text body)
    then show ?thesis by (simp add: Cons fresh_renderer Let_def)
  qed
qed

text \<open>
  Claim C7. When \<open>add_section\<close> raises, the chapters before some chapter of the call all
  rendered, that chapter failed (the file cannot be opened or read, or the renderer
  raises), and the exception is the RuntimeError \<^verbatim>\<open>failed to render manual chapter\<close>
  followed by the path of that chapter, with its failure as the cause; conversely the
  first failing chapter of a call makes it raise exactly this error, so a failing chapter
  always makes the call raise, and a call that returns has rendered every chapter. In
  fragment mode \<open>convert\<close> raises the RuntimeError \<^verbatim>\<open>failed to render manual\<close> followed by
  the tag and the path, with the failure as its cause, exactly when opening, reading or
  rendering the file fails, and returns the rendered string otherwise.
\<close>

theorem render_failures_are_wrapped:
  "(fst (add_section render fs self i ps) = Inl err \<longrightarrow>
      (\<exists>k outs e. k < length ps \<and>
         map (render_chapter render fs) (take k ps) = map Inr outs \<and>
         render_chapter render fs (ps ! k) = Inl e \<and>
         err = RuntimeError (''failed to render manual chapter '' @ ps ! k) None (Some e))) \<and>
   (n < length ps \<and> map (render_chapter render fs) (take n ps) = map Inr rendered \<and>
      render_chapter render fs (ps ! n) = Inl e1 \<longrightarrow>
      fst (add_section render fs self i ps) =
        Inl (RuntimeError (''failed to render manual chapter '' @ ps ! n) None (Some e1))) \<and>
   (p \<in> set ps \<and> render_chapter render fs p = Inl e2 \<longrightarrow>
      (\<exists>err'. fst (add_section render fs self i ps) = Inl err')) \<and>
   (fst (add_section render fs self i ps) = Inr () \<longrightarrow>
      (\<exists>outs. map (render_chapter render fs) ps = map Inr outs)) \<and>
   (fs fpath = OpenError e \<or> fs fpath = ReadError e \<or>
      (\<exists>body. fs fpath = Text body \<and>
         fst (frender (fself\<lparr>title_seen := False, renderer_tag := tg\<rparr>) body) = Inl e) \<longrightarrow>
      fst (convert frender fs fself fpath tg) =
        Inl (RuntimeError (''failed to render manual '' @ tg @ '' '' @ fpath) None (Some e))) \<and>
   (fs fpath = Text body \<and>
      fst (frender (fself\<lparr>title_seen := False, renderer_tag := tg\<rparr>) body) = Inr out \<longrightarrow>
      fst (convert frender fs fself fpath tg) = Inr out)"
proof (intro conjI impI)
  assume "fst (add_section render fs self i ps) = Inl err"
  from add_section_Inl [OF this]
  show "\<exists>k outs e. k < length ps \<and>
         map (render_chapter render fs) (take k ps) = map Inr outs \<and>
         render_chapter render fs (ps ! k) = Inl e \<and>
         err = RuntimeError (''failed to render manual chapter '' @ ps ! k) None (Some e)"
    by (simp add: chapter_error_def)
next
  assume a: "n < length ps \<and> map (render_chapter render fs) (take n ps) = map Inr rendered \<and>
      render_chapter render fs (ps ! n) = Inl e1"
  then have "fst (add_section render fs self i ps) = Inl (chapter_error (ps ! n) e1)"
    using add_section_prefix [of n ps render fs rendered e1 self i] by blast
  then show "fst (add_section render fs self i ps) =
        Inl (RuntimeError (''failed to render manual chapter '' @ ps ! n) None (Some e1))"
    by (simp add: chapter_error_def)
next
  assume a: "p \<in> set ps \<and> render_chapter render fs p = Inl e2"
  show "\<exists>err'. fst (add_section render fs self i ps) = Inl err'"
  proof (cases "fst (add_section render fs self i ps)")
    case (Inl err')
    then show ?thesis by blast
  next
    case (Inr u)
    from add_section_Inr [OF this] obtain outs where
      "map (render_chapter render fs) ps = map Inr outs" by blast
    then have "render_chapter render fs p \<in> set (map Inr outs)"
      using a by (metis imageI list.set_map)
    with a show ?thesis by auto
  qed
next
  assume "fst (add_section render fs self i ps) = Inr ()"
  then show "\<exists>outs. map (render_chapter render fs) ps = map Inr outs"
    by (rule add_section_Inr)
next
  assume "fs fpath = OpenError e \<or> fs fpath = ReadError e \<or>
      (\<exists>body. fs fpath = Text body \<and>
         fst (frender (fself\<lparr>title_seen := False, renderer_tag := tg\<rparr>) body) = Inl e)"
  then show "fst (convert frender fs fself fpath tg) =
        Inl (RuntimeError (''failed to render manual '' @ tg @ '' '' @ fpath) None (Some e))"
    by (auto simp: convert_result fragment_renderer_reset fragment_error_def)
next
  assume "fs fpath = Text body \<and>
      fst (frender (fself\<lparr>title_seen := False, renderer_tag := tg\<rparr>) body) = Inr out"
  then show "fst (convert frender fs fself fpath tg) = Inr out"
    by (auto simp: convert_result fragment_renderer_reset)
qed

theorem render_failures_are_wrapped_witness:
  "fst (add_section (\<lambda>r body. (Inr body, r\<lparr>title_seen := True\<rparr>))
          (\<lambda>p. if p = ''bad1.md'' then OpenError (OSError ''No such file or directory'')
                else if p = ''bad2.md'' then ReadError (OSError ''Is a directory'')
                else Text p)
          BaseConverter_init None [''ok.md'', ''bad1.md'', ''bad2.md'']) =
     Inl (RuntimeError ''failed to render manual chapter bad1.md'' None
            (Some (OSError ''No such file or directory''))) \<and>
   fst (add_section
          (\<lambda>r body.
             case classify_headings (ManualDocBookRenderer_heading_tag (\<lambda>t. (''section'', []))) r
                    [\<lparr>tag = ''h1'', map_lines = Some (0, 1), info = [], content = []\<rparr>,
                     \<lparr>tag = ''h1'', map_lines = Some (4, 5), info = [], content = []\<rparr>] of
               (Inl e, r') \<Rightarrow> (Inl e, r')
             | (Inr hs, r') \<Rightarrow> (Inr (concat (map fst hs)), r'))
          (\<lambda>p. Text p) BaseConverter_init None [''ch.md'']) =
     Inl (RuntimeError ''failed to render manual chapter ch.md'' None
            (Some (RuntimeError (title_error_message 4 5)
               (Some \<lparr>tag = ''h1'', map_lines = Some (4, 5), info = [], content = []\<rparr>)
               None))) \<and>
   fst (convert (\<lambda>r body. (Inr body, r\<lparr>title_seen := True\<rparr>))
          (\<lambda>p. OpenError (OSError ''No such file or directory''))
          ManualFragmentDocBookRenderer_init ''x.md'' ''section'') =
     Inl (RuntimeError ''failed to render manual section x.md'' None
            (Some (OSError ''No such file or directory''))) \<and>
   fst (convert (\<lambda>r body. (Inr body, r\<lparr>title_seen := True\<rparr>))
          (\<lambda>p. Text ''<section/>'')
          ManualFragmentDocBookRenderer_init ''x.md'' ''section'') = Inr ''<section/>''"
proof -
  let ?tok = "\<lparr>tag = ''h1'', map_lines = Some (4, 5), info = [], content = []\<rparr>"
  let ?render = "\<lambda>r body.
             case classify_headings (ManualDocBookRenderer_heading_tag (\<lambda>t. (''section'', []))) r
                    [\<lparr>tag = ''h1'', map_lines = Some (0, 1), info = [], content = []\<rparr>, ?tok] of
               (Inl e, r') \<Rightarrow> (Inl e, r')
             | (Inr hs, r') \<Rightarrow> (Inr (concat (map fst hs)), r')"
  let ?cause = "RuntimeError (title_error_message 4 5) (Some ?tok) None"
  let ?plain = "\<lambda>(r :: manual_renderer) body.
     (Inr body :: py_exception + string, r\<lparr>title_seen := True\<rparr>)"
  let ?fs = "\<lambda>p. if p = ''bad1.md'' then OpenError (OSError ''No such file or directory'')
                else if p = ''bad2.md'' then ReadError (OSError ''Is a directory'')
                else Text p"
  let ?ps = "[''ok.md'', ''bad1.md'', ''bad2.md'']"
  have k: "1 < length ?ps" by simp
  have pre: "map (render_chapter ?plain ?fs) (take 1 ?ps) = map Inr [''ok.md'']"
    by (simp add: render_chapter_def)
  have bad: "render_chapter ?plain ?fs (?ps ! 1) = Inl (OSError ''No such file or directory'')"
    by (simp add: render_chapter_def)
  have hyp0: "1 < length ?ps \<and> map (render_chapter ?plain ?fs) (take 1 ?ps) = map Inr [''ok.md''] \<and>
      render_chapter ?plain ?fs (?ps ! 1) = Inl (OSError ''No such file or directory'')"
    using k pre bad by (intro conjI)
  have name0: "''failed to render manual chapter '' @ ?ps ! 1 =
      ''failed to render manual chapter bad1.md''"
    by simp
  have "fst (add_section ?plain ?fs BaseConverter_init None ?ps) =
       Inl (RuntimeError (''failed to render manual chapter '' @ ?ps ! 1) None
              (Some (OSError ''No such file or directory'')))"
    using hyp0 render_failures_are_wrapped
      [where render = ?plain and fs = ?fs and self = BaseConverter_init and i = None
         and ps = ?ps and n = 1 and rendered = "[''ok.md'']"
         and ?e1.0 = "OSError ''No such file or directory''"]
    by blast
  then have zeroth:
    "fst (add_section ?plain ?fs BaseConverter_init None ?ps) =
       Inl (RuntimeError ''failed to render manual chapter bad1.md'' None
              (Some (OSError ''No such file or directory'')))"
    by (simp only: name0)
  have c: "render_chapter ?render (\<lambda>p. Text p) ([''ch.md''] ! 0) = Inl ?cause"
    by (simp add: render_chapter_def ManualDocBookRenderer_heading_tag_def)
  have hyp1: "0 < length [''ch.md''] \<and>
      map (render_chapter ?render (\<lambda>p. Text p)) (take 0 [''ch.md'']) = map Inr [] \<and>
      render_chapter ?render (\<lambda>p. Text p) ([''ch.md''] ! 0) = Inl ?cause"
    using c by simp
  have name1: "''failed to render manual chapter '' @ [''ch.md''] ! 0 =
      ''failed to render manual chapter ch.md''"
    by simp
  have "fst (add_section ?render (\<lambda>p. Text p) BaseConverter_init None [''ch.md'']) =
       Inl (RuntimeError (''failed to render manual chapter '' @ [''ch.md''] ! 0) None
              (Some ?cause))"
    using hyp1 render_failures_are_wrapped
      [where render = ?render and fs = "\<lambda>p. Text p" and self = BaseConverter_init
         and i = None and ps = "[''ch.md'']" and n = 0 and rendered = "[]" and ?e1.0 = ?cause]
    by blast
  then have first:
    "fst (add_section ?render (\<lambda>p. Text p) BaseConverter_init None [''ch.md'']) =
       Inl (RuntimeError ''failed to render manual chapter ch.md'' None (Some ?cause))"
    by (simp only: name1)
  have second:
    "fst (convert (\<lambda>r body. (Inr body, r\<lparr>title_seen := True\<rparr>))
          (\<lambda>p. OpenError (OSError ''No such file or directory''))
          ManualFragmentDocBookRenderer_init ''x.md'' ''section'') =
     Inl (RuntimeError ''failed to render manual section x.md'' None
            (Some (OSError ''No such file or directory'')))"
    using render_failures_are_wrapped
      [where fs = "\<lambda>p. OpenError (OSError ''No such file or directory'')"
         and fpath = "''x.md''" and e = "OSError ''No such file or directory''"
         and frender = "\<lambda>r body. (Inr body, r\<lparr>title_seen := True\<rparr>)"
         and fself = ManualFragmentDocBookRenderer_init and tg = "''section''"]
    by simp
  have third:
    "fst (convert (\<lambda>r body. (Inr body, r\<lparr>title_seen := True\<rparr>))
          (\<lambda>p. Text ''<section/>'')
          ManualFragmentDocBookRenderer_init ''x.md'' ''section'') = Inr ''<section/>''"
    using render_failures_are_wrapped
      [where fs = "\<lambda>p. Text ''<section/>''" and fpath = "''x.md''"
         and frender = "\<lambda>r body. (Inr body, r\<lparr>title_seen := True\<rparr>)"
         and fself = ManualFragmentDocBookRenderer_init and tg = "''section''"
         and body = "''<section/>''" and out = "''<section/>''"]
    by simp
  from zeroth first second third show ?thesis by (intro conjI)
qed

text \<open>
  Claim C8. The outcome of \<open>convert\<close> does not depend on the renderer it finds: two calls
  for the same file and tag, from any two renderer states and so also one after the
  other, give the same result. The outcome of \<open>add_section\<close> and the sections it leaves do
  not depend on the renderer state either, and a chapter given twice in one call is
  appended as the same string twice.
\<close>

theorem render_state_is_reset:
  "fst (convert frender fs fself fpath tg) = fst (convert frender fs fself' fpath tg) \<and>
   fst (convert frender fs (snd (convert frender fs fself fpath tg)) fpath tg) =
     fst (convert frender fs fself fpath tg) \<and>
   fst (add_section render fs \<lparr>sections = ss, renderer = r\<rparr> i ps) =
     fst (add_section render fs \<lparr>sections = ss, renderer = r'\<rparr> i ps) \<and>
   sections (snd (add_section render fs \<lparr>sections = ss, renderer = r\<rparr> i ps)) =
     sections (snd (add_section render fs \<lparr>sections = ss, renderer = r'\<rparr> i ps)) \<and>
   (fst (add_section render fs self i [p, p]) = Inr () \<longrightarrow>
      (\<exists>out. render_chapter render fs p = Inr out \<and>
         sections (snd (add_section render fs self i [p, p])) =
           sections self @ [\<lparr>section_id = i, chapters = [out, out]\<rparr>]))"
proof (intro conjI impI)
  show "fst (convert frender fs fself fpath tg) = fst (convert frender fs fself' fpath tg)"
    by (simp only: convert_result)
  show "fst (convert frender fs (snd (convert frender fs fself fpath tg)) fpath tg) =
     fst (convert frender fs fself fpath tg)"
    by (simp only: convert_result)
  show "fst (add_section render fs \<lparr>sections = ss, renderer = r\<rparr> i ps) =
     fst (add_section render fs \<lparr>sections = ss, renderer = r'\<rparr> i ps)"
    using add_chapters_renderer_irrelevant [of render fs "ss @ [RenderedSection_init i]" r ps r']
    by (simp add: add_section_def)
  show "sections (snd (add_section render fs \<lparr>sections = ss, renderer = r\<rparr> i ps)) =
     sections (snd (add_section render fs \<lparr>sections = ss, renderer = r'\<rparr> i ps))"
    using add_chapters_renderer_irrelevant [of render fs "ss @ [RenderedSection_init i]" r ps r']
    by (simp add: add_section_def)
next
  assume "fst (add_section render fs self i [p, p]) = Inr ()"
  from add_section_Inr [OF this] obtain outs where
    m: "map (render_chapter render fs) [p, p] = map Inr outs" by blast
  then obtain out where o: "render_chapter render fs p = Inr out" and outs: "outs = [out, out]"
    by (cases outs; cases "tl outs") auto
  from add_section_all [OF m, of self i] outs o
  show "\<exists>out. render_chapter render fs p = Inr out \<and>
         sections (snd (add_section render fs self i [p, p])) =
           sections self @ [\<lparr>section_id = i, chapters = [out, out]\<rparr>]"
    by simp
qed

theorem render_state_is_reset_witness:
  "fst (add_section (\<lambda>r body. (Inr (''<chapter>'' @ body @ ''</chapter>''), r\<lparr>title_seen := True\<rparr>))
          (\<lambda>p. Text p) BaseConverter_init None [''a.md'', ''a.md'']) = Inr () \<and>
   sections
     (snd (add_section
             (\<lambda>r body. (Inr (''<chapter>'' @ body @ ''</chapter>''), r\<lparr>title_seen := True\<rparr>))
             (\<lambda>p. Text p) BaseConverter_init None [''a.md'', ''a.md''])) =
     [\<lparr>section_id = None,
       chapters = [''<chapter>a.md</chapter>'', ''<chapter>a.md</chapter>'']\<rparr>]"
proof -
  let ?render = "\<lambda>(r :: manual_renderer) body.
     (Inr (''<chapter>'' @ body @ ''</chapter>'') :: py_exception + string, r\<lparr>title_seen := True\<rparr>)"
  have ok: "fst (add_section ?render (\<lambda>p. Text p) BaseConverter_init None [''a.md'', ''a.md'']) =
      Inr ()"
    by (simp add: add_section_def BaseConverter_init_def RenderedSection_init_def
        ManualDocBookRenderer_init_def)
  have rc: "render_chapter ?render (\<lambda>p. Text p) ''a.md'' = Inr ''<chapter>a.md</chapter>''"
    by (simp add: render_chapter_def)
  from ok rc render_state_is_reset
    [where render = ?render and fs = "\<lambda>p. Text p" and self = BaseConverter_init
       and i = None and p = "''a.md''"]
  have "sections (snd (add_section ?render (\<lambda>p. Text p) BaseConverter_init None
                         [''a.md'', ''a.md''])) =
     sections BaseConverter_init @
       [\<lparr>section_id = None,
         chapters = [''<chapter>a.md</chapter>'', ''<chapter>a.md</chapter>'']\<rparr>]"
    by (auto simp del: add_chapters.simps)
  with ok show ?thesis by (simp add: BaseConverter_init_def)
qed

text \<open>
  Claim C9. When the first \<open>k\<close> chapters of an \<open>add_section\<close> call render and the next one
  fails, the call raises the RuntimeError naming that chapter, and the converter keeps
  its earlier sections followed by the new section, which holds exactly the \<open>k\<close> rendered
  strings, in order: the failing chapter adds nothing, and neither the new section nor
  the earlier chapters are taken back.
\<close>

theorem add_section_failure_keeps_earlier_chapters:
  assumes "k < length ps"
    and "map (render_chapter render fs) (take k ps) = map Inr outs"
    and "render_chapter render fs (ps ! k) = Inl e"
  shows "fst (add_section render fs self i ps) =
      Inl (RuntimeError (''failed to render manual chapter '' @ ps ! k) None (Some e)) \<and>
    sections (snd (add_section render fs self i ps)) =
      sections self @ [\<lparr>section_id = i, chapters = outs\<rparr>] \<and>
    length outs = k"
proof -
  have "length (map (render_chapter render fs) (take k ps)) = length (map Inr outs :: (py_exception + string) list)"
    using assms(2) by simp
  then have "length outs = k" using assms(1) by simp
  then show ?thesis
    using add_section_prefix [OF assms, of self i] by (simp add: chapter_error_def)
qed

theorem add_section_failure_keeps_earlier_chapters_witness:
  "fst (add_section (\<lambda>r body. (Inr (''<chapter>'' @ body @ ''</chapter>''), r\<lparr>title_seen := True\<rparr>))
          (\<lambda>p. if p = ''bad.md'' then OpenError (OSError ''No such file or directory'')
                else Text p)
          BaseConverter_init (Some ''s1'') [''a.md'', ''b.md'', ''bad.md'', ''c.md'']) =
     Inl (RuntimeError ''failed to render manual chapter bad.md'' None
            (Some (OSError ''No such file or directory''))) \<and>
   sections
     (snd (add_section
             (\<lambda>r body. (Inr (''<chapter>'' @ body @ ''</chapter>''), r\<lparr>title_seen := True\<rparr>))
             (\<lambda>p. if p = ''bad.md'' then OpenError (OSError ''No such file or directory'')
                   else Text p)
             BaseConverter_init (Some ''s1'') [''a.md'', ''b.md'', ''bad.md'', ''c.md''])) =
     [\<lparr>section_id = Some ''s1'',
       chapters = [''<chapter>a.md</chapter>'', ''<chapter>b.md</chapter>'']\<rparr>]"
proof -
  let ?render = "\<lambda>(r :: manual_renderer) body.
     (Inr (''<chapter>'' @ body @ ''</chapter>'') :: py_exception + string, r\<lparr>title_seen := True\<rparr>)"
  let ?fs = "\<lambda>p. if p = ''bad.md'' then OpenError (OSError ''No such file or directory'')
                else Text p"
  let ?ps = "[''a.md'', ''b.md'', ''bad.md'', ''c.md'']"
  have k: "2 < length ?ps" by simp
  have pre: "map (render_chapter ?render ?fs) (take 2 ?ps) =
      map Inr [''<chapter>a.md</chapter>'', ''<chapter>b.md</chapter>'']"
    by (simp add: render_chapter_def)
  have bad: "render_chapter ?render ?fs (?ps ! 2) = Inl (OSError ''No such file or directory'')"
    by (simp add: render_chapter_def)
  from add_section_failure_keeps_earlier_chapters
    [OF k pre bad, of BaseConverter_init "Some ''s1''"]
  show ?thesis by (simp add: BaseConverter_init_def del: add_chapters.simps)
qed

end
